theory Spec2Isabelle
  imports Main "HOL-Library.Word" "HOL-Library.Sublist"
begin

unbundle bit_operations_syntax

section \<open>Package k1util: Ethereum RSV signatures and secp256k1 key conversions\<close>

text \<open>
  A shallow embedding of \<^verbatim>\<open>lib/k1util/k1util.go\<close>. The package is glue over
  third-party libraries (dcrd secp256k1, go-ethereum crypto, cometbft, cosmos-sdk):
  every call into one of them is a field of the record \<open>k1lib\<close>, so each function
  of the package is modelled exactly as written, relative to whatever the libraries
  answer. A call into a library either returns or panics (\<open>outcome\<close>); a Go result
  \<^verbatim>\<open>(x, err)\<close> is a sum with \<open>Inl\<close> for the error. The three conversions between
  Go's standard ECDSA keys and the cometbft and cosmos-sdk keys (\<^verbatim>\<open>StdPrivKeyToComet\<close>,
  \<^verbatim>\<open>StdPrivKeyFromComet\<close>, \<^verbatim>\<open>StdPubKeyToCosmos\<close>) are in no property below and are
  left out.
\<close>

subsection \<open>Data\<close>

type_synonym byte = "8 word"
type_synonym bytes = "byte list"

text \<open>Key/value attributes of a structured error: the package only attaches lengths.\<close>

type_synonym attrs = "(string \<times> nat) list"

text \<open>
  Errors. \<open>New\<close> and \<open>Wrap\<close> are \<^verbatim>\<open>errors.New(msg, attrs...)\<close> and
  \<^verbatim>\<open>errors.Wrap(err, msg, attrs...)\<close> of \<^verbatim>\<open>lib/errors\<close>, which is not among the
  source files: the constructors keep exactly what the package passes to them.
  \<open>External\<close> is an error value handed back by a third-party library, known by its
  message; \<open>InvalidByteError\<close> and \<open>ErrLength\<close> are the two errors of Go's
  \<^verbatim>\<open>encoding/hex\<close>.
\<close>

datatype error =
    New string attrs
  | Wrap error string attrs
  | External string
  | InvalidByteError char
  | ErrLength

text \<open>A call either panics or returns a value.\<close>

datatype 'a outcome = Panics | Returns 'a

text \<open>Go's \<^verbatim>\<open>ecdsa.PublicKey\<close>: the two affine coordinates (\<^verbatim>\<open>*big.Int\<close>).\<close>

datatype PublicKey = PublicKey (X: int) (Y: int)

text \<open>dcrd's \<^verbatim>\<open>secp256k1.PrivateKey\<close>: a scalar.\<close>

datatype PrivateKey = PrivateKey (scalar: nat)

text \<open>
  cometbft's interface \<^verbatim>\<open>crypto.PrivKey\<close>, by the results of the two methods the
  package and its callers use: \<^verbatim>\<open>Bytes()\<close> and \<^verbatim>\<open>PubKey().Bytes()\<close>. A
  \<^verbatim>\<open>crypto.PubKey\<close> is modelled by its \<^verbatim>\<open>Bytes()\<close>.
\<close>

record PrivKey =
  Bytes :: bytes
  PubKey :: bytes

text \<open>cosmos-sdk's \<^verbatim>\<open>secp256k1.PubKey{Key: ...}\<close>.\<close>

datatype cosmosk1_PubKey = cosmosk1_PubKey (Key: bytes)

text \<open>
  The protobuf message \<^verbatim>\<open>cryptopb.PublicKey\<close>: a oneof that is unset, an ed25519 key
  or a secp256k1 key. \<^verbatim>\<open>GetSecp256K1()\<close> returns the bytes of the last case and nil
  otherwise.
\<close>

datatype cryptopb_PublicKey =
    PublicKey_unset
  | PublicKey_Ed25519 bytes
  | PublicKey_Secp256K1 bytes

fun GetSecp256K1 :: "cryptopb_PublicKey \<Rightarrow> bytes" where
  "GetSecp256K1 (PublicKey_Secp256K1 bz) = bz"
| "GetSecp256K1 _ = []"

subsection \<open>The third-party libraries, as parameters\<close>

text \<open>
  One field per library function the package calls. Fallible functions return the
  library's error message on the left.
\<close>

record k1lib =
  secp256k1_PrivKeyFromBytes :: "bytes \<Rightarrow> PrivateKey outcome"
  ecdsa_SignCompact :: "PrivateKey \<Rightarrow> bytes \<Rightarrow> bool \<Rightarrow> bytes outcome"
  ethcrypto_SigToPub :: "bytes \<Rightarrow> bytes \<Rightarrow> (string + PublicKey) outcome"
  ethcrypto_PubkeyToAddress :: "PublicKey \<Rightarrow> bytes outcome"
  ethcrypto_DecompressPubkey :: "bytes \<Rightarrow> (string + PublicKey) outcome"
  ethcrypto_FromECDSAPub :: "PublicKey \<Rightarrow> bytes outcome"
  ethcrypto_UnmarshalPubkey :: "bytes \<Rightarrow> (string + PublicKey) outcome"
  cosmosk1_Address :: "cosmosk1_PubKey \<Rightarrow> bytes outcome"
  AccAddress_String :: "bytes \<Rightarrow> string outcome"
  ValAddress_String :: "bytes \<Rightarrow> string outcome"

subsection \<open>Constants\<close>

definition privKeyLen :: nat where
  "privKeyLen = 32"

definition pubkeyCompressedLen :: nat where
  "pubkeyCompressedLen = 33"

definition pubkeyUncompressedLen :: nat where
  "pubkeyUncompressedLen = 65"

text \<open>
  dcrd's constant \<^verbatim>\<open>secp256k1.PubKeyBytesLenCompressed\<close>, the length of a compressed
  key (the spec: "decoded length == 33").
\<close>

definition PubKeyBytesLenCompressed :: nat where
  "PubKeyBytesLenCompressed = 33"

text \<open>The index of V in a signature, \<^verbatim>\<open>const vIdx = 64\<close> in \<^verbatim>\<open>Verify\<close>.\<close>

definition vIdx :: nat where
  "vIdx = 64"

subsection \<open>Helpers of the repository that the package imports\<close>

text \<open>
  Modelled from the spec: \<^verbatim>\<open>cast.Array65\<close> of \<^verbatim>\<open>lib/cast\<close>, which is not among the
  source files. The spec says of \<^verbatim>\<open>Sign\<close> that it "returns exactly 65 bytes" and
  lists \<^verbatim>\<open>InvalidLength\<close> for "any buffer [that] does not match its required fixed
  size": a slice of 65 bytes is returned as the array, any other length is an error.
\<close>

definition Array65 :: "bytes \<Rightarrow> error + bytes" where
  "Array65 sl =
     (if length sl = 65 then Inr sl
      else Inl (New ''slice length not 65'' [(''len'', length sl)]))"

subsection \<open>Signing and verification\<close>

text \<open>
  \<^verbatim>\<open>Sign\<close>. The expression \<^verbatim>\<open>append(sig[1:], sig[0])\<close> panics on an empty slice;
  otherwise it moves the first byte behind the rest.
\<close>

definition Sign :: "k1lib \<Rightarrow> PrivKey \<Rightarrow> bytes \<Rightarrow> (error + bytes) outcome" where
  "Sign lib key input =
     (let bz = Bytes key in
      if length bz \<noteq> privKeyLen then Returns (Inl (New ''invalid private key length'' []))
      else
        case secp256k1_PrivKeyFromBytes lib bz of
          Panics \<Rightarrow> Panics
        | Returns priv \<Rightarrow>
            (case ecdsa_SignCompact lib priv input False of
               Panics \<Rightarrow> Panics
             | Returns sig \<Rightarrow>
                 (case sig of
                    [] \<Rightarrow> Panics
                  | s0 # rest \<Rightarrow> Returns (Array65 (rest @ [s0])))))"

text \<open>
  \<^verbatim>\<open>Verify\<close> returns \<^verbatim>\<open>(bool, error)\<close>: the pair is kept, with \<open>None\<close> for a nil
  error. The signature is a \<^verbatim>\<open>[65]byte\<close>, so the model is meant for lists of length
  65; \<open>sig[vIdx := ...]\<close> is the update of the local copy.
\<close>

definition Verify :: "k1lib \<Rightarrow> bytes \<Rightarrow> bytes \<Rightarrow> bytes \<Rightarrow> (bool \<times> error option) outcome" where
  "Verify lib address hash sig =
     (let v = sig ! vIdx in
      if v \<noteq> 27 \<and> v \<noteq> 28
      then Returns (False, Some (New ''invalid recovery id (V) format, must be 27 or 28'' []))
      else
        let sig' = sig[vIdx := sig ! vIdx - 27] in
        case ethcrypto_SigToPub lib hash sig' of
          Panics \<Rightarrow> Panics
        | Returns (Inl err) \<Rightarrow> Returns (False, Some (Wrap (External err) ''recover public key'' []))
        | Returns (Inr pubkey) \<Rightarrow>
            (case ethcrypto_PubkeyToAddress lib pubkey of
               Panics \<Rightarrow> Panics
             | Returns actual \<Rightarrow> Returns (actual = address, None)))"

subsection \<open>Key-format conversion\<close>

definition PubKeyToAddress :: "k1lib \<Rightarrow> bytes \<Rightarrow> (error + bytes) outcome" where
  "PubKeyToAddress lib pubkeyBytes =
     (if length pubkeyBytes \<noteq> pubkeyCompressedLen
      then Returns (Inl (New ''invalid pubkey length'' [(''length'', length pubkeyBytes)]))
      else
        case ethcrypto_DecompressPubkey lib pubkeyBytes of
          Panics \<Rightarrow> Panics
        | Returns (Inl err) \<Rightarrow> Returns (Inl (Wrap (External err) ''decompress pubkey'' []))
        | Returns (Inr ethPubKey) \<Rightarrow>
            (case ethcrypto_PubkeyToAddress lib ethPubKey of
               Panics \<Rightarrow> Panics
             | Returns a \<Rightarrow> Returns (Inr a)))"

definition PubKeyBytesToCosmos :: "bytes \<Rightarrow> error + cosmosk1_PubKey" where
  "PubKeyBytesToCosmos pubkey =
     (if length pubkey \<noteq> pubkeyCompressedLen
      then Inl (New ''invalid pubkey length'' [(''length'', length pubkey)])
      else Inr (cosmosk1_PubKey pubkey))"

definition PubKeyToCosmos :: "bytes \<Rightarrow> error + cosmosk1_PubKey" where
  "PubKeyToCosmos pubkey = PubKeyBytesToCosmos pubkey"

definition PBPubKeyFromBytes :: "bytes \<Rightarrow> error + cryptopb_PublicKey" where
  "PBPubKeyFromBytes pubkey =
     (if length pubkey \<noteq> pubkeyCompressedLen
      then Inl (New ''invalid pubkey length'' [(''length'', length pubkey)])
      else Inr (PublicKey_Secp256K1 pubkey))"

definition PubKeyPBToAddress :: "k1lib \<Rightarrow> cryptopb_PublicKey \<Rightarrow> (error + bytes) outcome" where
  "PubKeyPBToAddress lib pubkey =
     (let pubkeyBytes = GetSecp256K1 pubkey in
      if length pubkeyBytes \<noteq> pubkeyCompressedLen
      then Returns (Inl (New ''invalid pubkey length'' [(''length'', length pubkeyBytes)]))
      else
        case ethcrypto_DecompressPubkey lib pubkeyBytes of
          Panics \<Rightarrow> Panics
        | Returns (Inl err) \<Rightarrow> Returns (Inl (Wrap (External err) ''decompress pubkey'' []))
        | Returns (Inr ethPubKey) \<Rightarrow>
            (case ethcrypto_PubkeyToAddress lib ethPubKey of
               Panics \<Rightarrow> Panics
             | Returns a \<Rightarrow> Returns (Inr a)))"

text \<open>
  \<^verbatim>\<open>PubKeyToBytes64\<close>: the slice expression \<^verbatim>\<open>[1:]\<close> panics on an empty slice.
\<close>

definition PubKeyToBytes64 :: "k1lib \<Rightarrow> PublicKey \<Rightarrow> bytes outcome" where
  "PubKeyToBytes64 lib pubkey =
     (case ethcrypto_FromECDSAPub lib pubkey of
        Panics \<Rightarrow> Panics
      | Returns bz \<Rightarrow> (case bz of [] \<Rightarrow> Panics | b0 # rest \<Rightarrow> Returns rest))"

text \<open>\<^verbatim>\<open>const prefix = 0x04\<close> in \<^verbatim>\<open>PubKeyFromBytes64\<close>.\<close>

definition prefix04 :: byte where
  "prefix04 = 0x04"

definition PubKeyFromBytes64 :: "k1lib \<Rightarrow> bytes \<Rightarrow> (error + PublicKey) outcome" where
  "PubKeyFromBytes64 lib pubkey =
     (if length pubkey \<noteq> pubkeyUncompressedLen - 1
      then Returns (Inl (New ''invalid pubkey length'' [(''length'', length pubkey)]))
      else
        case ethcrypto_UnmarshalPubkey lib ([prefix04] @ pubkey) of
          Panics \<Rightarrow> Panics
        | Returns (Inl err) \<Rightarrow> Returns (Inl (Wrap (External err) ''unmarshal pubkey'' []))
        | Returns (Inr resp) \<Rightarrow> Returns (Inr resp))"

text \<open>
  \<^verbatim>\<open>CosmosPubkeyToEVMAddress\<close> has no length check of its own and returns the
  library's error as it is.
\<close>

definition CosmosPubkeyToEVMAddress :: "k1lib \<Rightarrow> bytes \<Rightarrow> (error + bytes) outcome" where
  "CosmosPubkeyToEVMAddress lib pubkeyCmp =
     (case ethcrypto_DecompressPubkey lib pubkeyCmp of
        Panics \<Rightarrow> Panics
      | Returns (Inl err) \<Rightarrow> Returns (Inl (External err))
      | Returns (Inr key) \<Rightarrow>
          (case ethcrypto_PubkeyToAddress lib key of
             Panics \<Rightarrow> Panics
           | Returns addr \<Rightarrow> Returns (Inr addr)))"

subsection \<open>Textual keys: Go's \<^verbatim>\<open>strings.Replace\<close> and \<^verbatim>\<open>hex.DecodeString\<close>\<close>

text \<open>
  \<^verbatim>\<open>strings.Index(s, old)\<close>: the least position at which \<open>old\<close> occurs in \<open>s\<close>.
\<close>

fun strings_Index :: "string \<Rightarrow> string \<Rightarrow> nat option" where
  "strings_Index [] old = (if old = [] then Some 0 else None)"
| "strings_Index (c # cs) old =
     (if prefix old (c # cs) then Some 0 else map_option Suc (strings_Index cs old))"

text \<open>
  \<^verbatim>\<open>strings.Replace(s, old, new, n)\<close> for \<open>n \<ge> 0\<close> and a non-empty \<open>old\<close> (the package
  calls it with \<^verbatim>\<open>"0x"\<close> and 1): the first \<open>n\<close> non-overlapping occurrences of \<open>old\<close>,
  searched from the left, are replaced by \<open>new\<close>.
\<close>

fun strings_Replace :: "string \<Rightarrow> string \<Rightarrow> string \<Rightarrow> nat \<Rightarrow> string" where
  "strings_Replace s old new 0 = s"
| "strings_Replace s old new (Suc n) =
     (case strings_Index s old of
        None \<Rightarrow> s
      | Some j \<Rightarrow> take j s @ new @ strings_Replace (drop (j + length old) s) old new n)"

text \<open>
  The value of a hexadecimal digit, \<open>None\<close> for any other character (Go's
  \<^verbatim>\<open>reverseHexTable\<close>, whose entry is \<^verbatim>\<open>0xff\<close> there).
\<close>

definition fromHexChar :: "char \<Rightarrow> byte option" where
  "fromHexChar c =
     (let n = (of_char c :: nat) in
      if 48 \<le> n \<and> n \<le> 57 then Some (of_nat (n - 48))
      else if 97 \<le> n \<and> n \<le> 102 then Some (of_nat (n - 97 + 10))
      else if 65 \<le> n \<and> n \<le> 70 then Some (of_nat (n - 65 + 10))
      else None)"

text \<open>
  \<^verbatim>\<open>hex.DecodeString\<close>: pairs of digits from the left; the first bad character is
  reported, and an odd length only when its last character is a digit.
\<close>

fun hex_DecodeString :: "string \<Rightarrow> error + bytes" where
  "hex_DecodeString [] = Inr []"
| "hex_DecodeString [p] =
     (case fromHexChar p of None \<Rightarrow> Inl (InvalidByteError p) | Some a \<Rightarrow> Inl ErrLength)"
| "hex_DecodeString (p # q # rest) =
     (case fromHexChar p of
        None \<Rightarrow> Inl (InvalidByteError p)
      | Some a \<Rightarrow>
          (case fromHexChar q of
             None \<Rightarrow> Inl (InvalidByteError q)
           | Some b \<Rightarrow>
               (case hex_DecodeString rest of
                  Inl err \<Rightarrow> Inl err
                | Inr bz \<Rightarrow> Inr ((push_bit 4 a OR b) # bz))))"

definition decodePubKeyFromHex :: "string \<Rightarrow> error + cosmosk1_PubKey" where
  "decodePubKeyFromHex pubKeyHex =
     (let cmpPubKeyHex = strings_Replace pubKeyHex ''0x'' [] 1 in
      case hex_DecodeString cmpPubKeyHex of
        Inl err \<Rightarrow> Inl (Wrap err ''invalid compressed public key'' [])
      | Inr cmpPubKey \<Rightarrow>
          if length cmpPubKey \<noteq> PubKeyBytesLenCompressed
          then Inl (New ''invalid compressed public key'' [(''length'', length cmpPubKey)])
          else Inr (cosmosk1_PubKey cmpPubKey))"

definition CmpPubKeyToDelegatorAddress :: "k1lib \<Rightarrow> string \<Rightarrow> (error + string) outcome" where
  "CmpPubKeyToDelegatorAddress lib cmpPubKeyHex =
     (case decodePubKeyFromHex cmpPubKeyHex of
        Inl err \<Rightarrow> Returns (Inl (Wrap err ''invalid compressed public key'' []))
      | Inr pubKey \<Rightarrow>
          (case cosmosk1_Address lib pubKey of
             Panics \<Rightarrow> Panics
           | Returns a \<Rightarrow>
               (case AccAddress_String lib a of
                  Panics \<Rightarrow> Panics
                | Returns str \<Rightarrow> Returns (Inr str))))"

definition CmpPubKeyToValidatorAddress :: "k1lib \<Rightarrow> string \<Rightarrow> (error + string) outcome" where
  "CmpPubKeyToValidatorAddress lib cmpPubKeyHex =
     (case decodePubKeyFromHex cmpPubKeyHex of
        Inl err \<Rightarrow> Returns (Inl (Wrap err ''invalid compressed public key'' []))
      | Inr pubKey \<Rightarrow>
          (case cosmosk1_Address lib pubKey of
             Panics \<Rightarrow> Panics
           | Returns a \<Rightarrow>
               (case ValAddress_String lib a of
                  Panics \<Rightarrow> Panics
                | Returns str \<Rightarrow> Returns (Inr str))))"

subsection \<open>The curve and the uncompressed encoding\<close>

text \<open>
  The field prime of secp256k1 and the curve equation \<open>y\<^sup>2 = x\<^sup>3 + 7\<close>, which say
  what "a point on the secp256k1 curve" is.
\<close>

definition secp256k1_P :: int where
  "secp256k1_P = 0xFFFFFFFFFFFFFFFFFFFFFFFFFFFFFFFFFFFFFFFFFFFFFFFFFFFFFFFEFFFFFC2F"

definition on_secp256k1 :: "int \<Rightarrow> int \<Rightarrow> bool" where
  "on_secp256k1 x y =
     (0 \<le> x \<and> x < secp256k1_P \<and> 0 \<le> y \<and> y < secp256k1_P \<and>
      (y * y) mod secp256k1_P = (x * x * x + 7) mod secp256k1_P)"

text \<open>Big-endian bytes as an integer, and an integer as \<open>n\<close> big-endian bytes.\<close>

definition be_int :: "bytes \<Rightarrow> int" where
  "be_int bz = foldl (\<lambda>acc b. acc * 256 + uint b) 0 bz"

fun be_bytes :: "nat \<Rightarrow> int \<Rightarrow> bytes" where
  "be_bytes 0 x = []"
| "be_bytes (Suc n) x = be_bytes n (x div 256) @ [word_of_int (x mod 256)]"

text \<open>
  The point that a 64-byte string \<open>x || y\<close> denotes is on the curve.
\<close>

definition bytes64_on_curve :: "bytes \<Rightarrow> bool" where
  "bytes64_on_curve m = on_secp256k1 (be_int (take 32 m)) (be_int (drop 32 m))"

text \<open>
  The contract of \<^verbatim>\<open>ethcrypto.FromECDSAPub\<close> and \<^verbatim>\<open>ethcrypto.UnmarshalPubkey\<close> on
  valid keys, after the spec's data model ("uncompressed public key: exactly 65 bytes
  (0x04 prefix + 32-byte x + 32-byte y)"): a key on the curve is encoded as \<open>0x04\<close>
  followed by 64 bytes, and that encoding is parsed back to the key.
\<close>

definition uncompressed_encoding_roundtrips :: "k1lib \<Rightarrow> bool" where
  "uncompressed_encoding_roundtrips lib =
     (\<forall>pk. on_secp256k1 (X pk) (Y pk) \<longrightarrow>
        (\<exists>m. length m = 64 \<and> ethcrypto_FromECDSAPub lib pk = Returns (4 # m) \<and>
             ethcrypto_UnmarshalPubkey lib (4 # m) = Returns (Inr pk)))"

subsection \<open>A test double of the libraries\<close>

text \<open>
  The theorems below hold for every \<open>k1lib\<close>. To run the package on concrete inputs,
  \<open>test_lib\<close> answers as the libraries do on one recorded test vector: the private
  key 1, whose public key is the generator of the curve, and the digest
  SHA-256("Satoshi Nakamoto"), with the RFC 6979 signature of that digest. The
  uncompressed encoding \<open>0x04 || x || y\<close> and its parsing are computed; signing,
  recovery, decompression and the address hashes are recorded for the vector only.
  One more recovery is recorded: with the first byte of \<open>R\<close> changed from 0x93 to
  0x05, the same digest, \<open>S\<close> and recovery id give another key, \<open>tv_pub_alt\<close>.
  Every other recovery is answered with the library's error.
\<close>

definition secp256k1_N :: int where
  "secp256k1_N = 0xFFFFFFFFFFFFFFFFFFFFFFFFFFFFFFFEBAAEDCE6AF48A03BBFD25E8CD0364141"

definition tv_key_bytes :: bytes where
  "tv_key_bytes = replicate 31 0 @ [1]"

definition tv_digest :: bytes where
  "tv_digest = [
     0xa0, 0xdc, 0x65, 0xff, 0xca, 0x79, 0x98, 0x73, 0xcb, 0xea, 0x0a, 0xc2, 0x74, 0x01, 0x5b, 0x95,
     0x26, 0x50, 0x5d, 0xaa, 0xae, 0xd3, 0x85, 0x15, 0x54, 0x25, 0xf7, 0x33, 0x77, 0x04, 0x88, 0x3e]"

definition tv_R :: bytes where
  "tv_R = [
     0x93, 0x4b, 0x1e, 0xa1, 0x0a, 0x4b, 0x3c, 0x17, 0x57, 0xe2, 0xb0, 0xc0, 0x17, 0xd0, 0xb6, 0x14,
     0x3c, 0xe3, 0xc9, 0xa7, 0xe6, 0xa4, 0xa4, 0x98, 0x60, 0xd7, 0xa6, 0xab, 0x21, 0x0e, 0xe3, 0xd8]"

definition tv_S :: bytes where
  "tv_S = [
     0x24, 0x42, 0xce, 0x9d, 0x2b, 0x91, 0x60, 0x64, 0x10, 0x80, 0x14, 0x78, 0x3e, 0x92, 0x3e, 0xc3,
     0x6b, 0x49, 0x74, 0x3e, 0x2f, 0xfa, 0x1c, 0x44, 0x96, 0xf0, 0x1a, 0x51, 0x2a, 0xaf, 0xd9, 0xe5]"

text \<open>The recovery id of the recorded signature.\<close>

definition tv_recid :: byte where
  "tv_recid = 1"

definition tv_pub :: PublicKey where
  "tv_pub = PublicKey
     0x79BE667EF9DCBBAC55A06295CE870B07029BFCDB2DCE28D959F2815B16F81798
     0x483ADA7726A3C4655DA4FBFC0E1108A8FD17B448A68554199C47D08FFB10D4B8"

definition tv_pub_compressed :: bytes where
  "tv_pub_compressed = [
     0x02, 0x79, 0xbe, 0x66, 0x7e, 0xf9, 0xdc, 0xbb, 0xac, 0x55, 0xa0, 0x62, 0x95, 0xce, 0x87, 0x0b,
     0x07, 0x02, 0x9b, 0xfc, 0xdb, 0x2d, 0xce, 0x28, 0xd9, 0x59, 0xf2, 0x81, 0x5b, 0x16, 0xf8, 0x17,
     0x98]"

definition tv_address :: bytes where
  "tv_address = [
     0x7e, 0x5f, 0x45, 0x52, 0x09, 0x1a, 0x69, 0x12, 0x5d, 0x5d, 0xfc, 0xb7, 0xb8, 0xc2, 0x65, 0x90,
     0x29, 0x39, 0x5b, 0xdf]"

definition tv_cosmos_address :: bytes where
  "tv_cosmos_address = [
     0x75, 0x1e, 0x76, 0xe8, 0x19, 0x91, 0x96, 0xd4, 0x54, 0x94, 0x1c, 0x45, 0xd1, 0xb3, 0xa3, 0x23,
     0xf1, 0x43, 0x3b, 0xd6]"

definition tv_pub_alt :: PublicKey where
  "tv_pub_alt = PublicKey
     0x223619BA565C1B45EE7BB0F335EC2E76402D534F704A84EB1213AC2E1D4EB7CA
     0x446687B555FA9ECF3D55AE55BC6605E2C00EB7F87C9847263F9615BDED3B74CC"

definition tv_address_alt :: bytes where
  "tv_address_alt = [
     0xb7, 0xbf, 0x3a, 0xaa, 0xd2, 0xf4, 0x12, 0xd2, 0x35, 0x15, 0x47, 0x45, 0xd1, 0x49, 0xe8, 0x47,
     0x47, 0xd9, 0xb1, 0xe7]"

definition tv_key :: PrivKey where
  "tv_key = \<lparr>Bytes = tv_key_bytes, PubKey = tv_pub_compressed\<rparr>"

definition test_lib :: k1lib where
  "test_lib = \<lparr>
     secp256k1_PrivKeyFromBytes = (\<lambda>bz. Returns (PrivateKey (nat (be_int bz mod secp256k1_N)))),
     ecdsa_SignCompact = (\<lambda>priv h isCompressedKey.
        if priv = PrivateKey 1 \<and> h = tv_digest \<and> isCompressedKey = False
        then Returns ((27 + tv_recid) # tv_R @ tv_S) else Panics),
     ethcrypto_SigToPub = (\<lambda>h sig.
        if h = tv_digest \<and> sig = tv_R @ tv_S @ [tv_recid]
        then Returns (Inr tv_pub)
        else if h = tv_digest \<and> sig = tv_R[0 := 0x05] @ tv_S @ [tv_recid]
        then Returns (Inr tv_pub_alt)
        else Returns (Inl ''recovery failed'')),
     ethcrypto_PubkeyToAddress = (\<lambda>pub.
        if pub = tv_pub then Returns tv_address
        else if pub = tv_pub_alt then Returns tv_address_alt
        else Panics),
     ethcrypto_DecompressPubkey = (\<lambda>bz.
        if bz = tv_pub_compressed
        then Returns (Inr tv_pub) else Returns (Inl ''invalid public key'')),
     ethcrypto_FromECDSAPub = (\<lambda>pub.
        Returns (4 # be_bytes 32 (X pub) @ be_bytes 32 (Y pub))),
     ethcrypto_UnmarshalPubkey = (\<lambda>bz.
        if length bz = 65 \<and> take 1 bz = [4] \<and> bytes64_on_curve (drop 1 bz)
        then Returns (Inr (PublicKey (be_int (take 32 (drop 1 bz))) (be_int (drop 33 bz))))
        else Returns (Inl ''invalid secp256k1 public key'')),
     cosmosk1_Address = (\<lambda>pk.
        if pk = cosmosk1_PubKey tv_pub_compressed then Returns tv_cosmos_address else Panics),
     AccAddress_String = (\<lambda>a.
        if a = tv_cosmos_address
        then Returns ''cosmos1w508d6qejxtdg4y5r3zarvary0c5xw7k6ah60c'' else Panics),
     ValAddress_String = (\<lambda>a.
        if a = tv_cosmos_address
        then Returns ''cosmosvaloper1w508d6qejxtdg4y5r3zarvary0c5xw7klfr0rt'' else Panics)
   \<rparr>"

text \<open>A library none of whose functions returns: every call panics.\<close>

definition no_lib :: k1lib where
  "no_lib = \<lparr>
     secp256k1_PrivKeyFromBytes = (\<lambda>bz. Panics),
     ecdsa_SignCompact = (\<lambda>priv h isCompressedKey. Panics),
     ethcrypto_SigToPub = (\<lambda>h sig. Panics),
     ethcrypto_PubkeyToAddress = (\<lambda>pub. Panics),
     ethcrypto_DecompressPubkey = (\<lambda>bz. Panics),
     ethcrypto_FromECDSAPub = (\<lambda>pub. Panics),
     ethcrypto_UnmarshalPubkey = (\<lambda>bz. Panics),
     cosmosk1_Address = (\<lambda>pk. Panics),
     AccAddress_String = (\<lambda>a. Panics),
     ValAddress_String = (\<lambda>a. Panics)
   \<rparr>"

text \<open>
  The all-zero key. \<^verbatim>\<open>Sign\<close> checks only the length of a key, and the library signs
  with the scalar 0 as well: \<open>zero_key_lib\<close> is \<open>test_lib\<close> with the RFC 6979
  signature of the same digest under the scalar 0 recorded (recovery id 0, so the
  compact output starts with 27). The public key of this scalar is the point at
  infinity, which the key type serialises as \<open>0x02\<close> and 32 zero bytes; no point
  of the curve has the x-coordinate 0, so decompressing it fails, and recovery from
  the signature fails because the recovered point is the point at infinity. Both
  are the default answers of \<open>test_lib\<close>.
\<close>

definition zk_R :: bytes where
  "zk_R = [
     0x8e, 0x05, 0x4a, 0x38, 0x21, 0x43, 0x81, 0xa8, 0xae, 0x57, 0x6d, 0xb3, 0x85, 0x69, 0xd6, 0xb1,
     0xab, 0x7b, 0x8d, 0x23, 0xcd, 0x33, 0xa1, 0xb8, 0x93, 0x26, 0xd9, 0xb6, 0xc3, 0xed, 0x88, 0xb8]"

definition zk_S :: bytes where
  "zk_S = [
     0x3f, 0xa7, 0x03, 0x2d, 0xba, 0xf9, 0x25, 0x84, 0x57, 0x6b, 0x6e, 0x82, 0x5c, 0x02, 0x41, 0x3e,
     0x55, 0x61, 0x82, 0x52, 0x11, 0xbf, 0x2e, 0x90, 0xa4, 0x68, 0x78, 0xc1, 0xff, 0xff, 0xb9, 0xd3]"

definition zero_key :: PrivKey where
  "zero_key = \<lparr>Bytes = replicate 32 0, PubKey = 0x02 # replicate 32 0\<rparr>"

definition zero_key_lib :: k1lib where
  "zero_key_lib = test_lib\<lparr>
     ecdsa_SignCompact := (\<lambda>priv h isCompressedKey.
        if priv = PrivateKey 0 \<and> h = tv_digest \<and> isCompressedKey = False
        then Returns (27 # zk_R @ zk_S)
        else ecdsa_SignCompact test_lib priv h isCompressedKey)\<rparr>"

text \<open>
  A library whose \<^verbatim>\<open>UnmarshalPubkey\<close> checks the length and the prefix \<open>0x04\<close> and
  nothing else, as the go-ethereum releases without the on-curve check do (1.14.5 to
  1.14.12): \<open>test_lib\<close> with that parsing.
\<close>

definition unchecked_lib :: k1lib where
  "unchecked_lib = test_lib\<lparr>
     ethcrypto_UnmarshalPubkey := (\<lambda>bz.
        if length bz = 65 \<and> take 1 bz = [4]
        then Returns (Inr (PublicKey (be_int (take 32 (drop 1 bz))) (be_int (drop 33 bz))))
        else Returns (Inl ''invalid secp256k1 public key''))\<rparr>"

section \<open>Signing and verification\<close>

text \<open>
  When the library's compact signature is one byte followed by \<open>R\<close> and \<open>S\<close>,
  \<^verbatim>\<open>Sign\<close> returns \<open>R || S\<close> followed by that byte.
\<close>

lemma Sign_compact:
  assumes "length (Bytes key) = 32"
    and "secp256k1_PrivKeyFromBytes lib (Bytes key) = Returns priv"
    and "ecdsa_SignCompact lib priv digest False = Returns (c0 # R @ S)"
    and "length R = 32" and "length S = 32"
  shows "Sign lib key digest = Returns (Inr (R @ S @ [c0]))"
  using assms by (simp add: Sign_def privKeyLen_def Array65_def)

text \<open>
  On a signature \<open>R || S || c\<close> with \<open>c\<close> 27 or 28, \<^verbatim>\<open>Verify\<close> hands
  \<open>R || S || (c - 27)\<close> to the library's recovery and decides by its answer.
\<close>

lemma Verify_RSV:
  assumes "length R = 32" and "length S = 32" and "c = 27 \<or> c = 28"
  shows "Verify lib addr digest (R @ S @ [c]) =
           (case ethcrypto_SigToPub lib digest (R @ S @ [c - 27]) of
              Panics \<Rightarrow> Panics
            | Returns (Inl err) \<Rightarrow> Returns (False, Some (Wrap (External err) ''recover public key'' []))
            | Returns (Inr pubkey) \<Rightarrow>
                (case ethcrypto_PubkeyToAddress lib pubkey of
                   Panics \<Rightarrow> Panics
                 | Returns actual \<Rightarrow> Returns (actual = addr, None)))"
proof -
  have n: "(R @ S @ [c]) ! 64 = c"
    using assms by (simp add: nth_append)
  have u: "(R @ S @ [c])[64 := c - 27] = R @ S @ [c - 27]"
    using assms by (simp add: list_update_append)
  have g: "\<not> (c \<noteq> 27 \<and> c \<noteq> 28)"
    using assms by blast
  show ?thesis
    unfolding Verify_def vIdx_def Let_def n u using g by auto
qed

text \<open>
  C1, as amended to valid keys. For a 32-byte key that is valid, signing a digest and
  verifying the signature against the address of the key's public key returns true
  and no error. A key is valid when its scalar is not 0 modulo the group order; it
  is for these keys that the libraries sign, recover the signer's key and derive an
  address. Elliptic-curve signing and recovery are the
  libraries'; their contract at the key and digest is the hypothesis: the compact
  signature is the byte \<open>27 + v\<close> (\<open>v\<close> the recovery id, 0 or 1) followed by the
  32 bytes of \<open>R\<close> and of \<open>S\<close>, recovery from \<open>R || S || v\<close> succeeds, and the
  recovered key has the address that \<^verbatim>\<open>PubKeyToAddress\<close> derives from the key's
  public key. The theorem is then about the package's own steps: the rotation in
  \<^verbatim>\<open>Sign\<close> and the check and offset of V in \<^verbatim>\<open>Verify\<close>.
\<close>

theorem Sign_then_Verify:
  assumes "length (Bytes key) = 32" and "length digest = 32"
    and "secp256k1_PrivKeyFromBytes lib (Bytes key) = Returns priv"
    and "ecdsa_SignCompact lib priv digest False = Returns ((27 + v) # R @ S)"
    and "length R = 32" and "length S = 32" and "v = 0 \<or> v = 1"
    and "ethcrypto_SigToPub lib digest (R @ S @ [v]) = Returns (Inr pub)"
    and "ethcrypto_PubkeyToAddress lib pub = Returns addr"
    and "PubKeyToAddress lib (PubKey key) = Returns (Inr addr)"
  shows "\<exists>sig. Sign lib key digest = Returns (Inr sig) \<and>
           Verify lib addr digest sig = Returns (True, None)"
proof -
  have s: "Sign lib key digest = Returns (Inr (R @ S @ [27 + v]))"
    using assms by (simp add: Sign_compact)
  have r: "27 + v = 27 \<or> 27 + v = 28"
    using assms(7) by auto
  have "Verify lib addr digest (R @ S @ [27 + v]) = Returns (True, None)"
    using assms(8,9) by (simp add: Verify_RSV [OF assms(5,6) r])
  with s show ?thesis by simp
qed

text \<open>The recorded test vector satisfies every hypothesis of C1.\<close>

theorem Sign_then_Verify_witness:
  "\<exists>sig. Sign test_lib tv_key tv_digest = Returns (Inr sig) \<and>
           Verify test_lib tv_address tv_digest sig = Returns (True, None)"
proof -
  have 1: "length (Bytes tv_key) = 32" by code_simp
  have 2: "length tv_digest = 32" by code_simp
  have 3: "secp256k1_PrivKeyFromBytes test_lib (Bytes tv_key) = Returns (PrivateKey 1)"
    by code_simp
  have 4: "ecdsa_SignCompact test_lib (PrivateKey 1) tv_digest False =
             Returns ((27 + 1) # tv_R @ tv_S)"
    by code_simp
  have 5: "length tv_R = 32" by code_simp
  have 6: "length tv_S = 32" by code_simp
  have 7: "(1::byte) = 0 \<or> (1::byte) = 1" by simp
  have 8: "ethcrypto_SigToPub test_lib tv_digest (tv_R @ tv_S @ [1]) = Returns (Inr tv_pub)"
    by code_simp
  have 9: "ethcrypto_PubkeyToAddress test_lib tv_pub = Returns tv_address" by code_simp
  have 10: "PubKeyToAddress test_lib (PubKey tv_key) = Returns (Inr tv_address)" by code_simp
  show ?thesis
    by (rule Sign_then_Verify [OF 1 2 3 4 5 6 7 8 9 10])
qed

text \<open>
  C1 as stated, for every 32-byte private key, fails at the all-zero key: \<^verbatim>\<open>Sign\<close>
  accepts it (its only check is the length) and returns a signature, the key's
  public key has no address, and \<^verbatim>\<open>Verify\<close> returns a recovery error for that
  signature whatever the address, here for the address of key 1 and for the zero
  address.
\<close>

theorem Sign_then_Verify_zero_key:
  "length (Bytes zero_key) = 32 \<and>
   Sign zero_key_lib zero_key tv_digest = Returns (Inr (zk_R @ zk_S @ [27])) \<and>
   PubKeyToAddress zero_key_lib (PubKey zero_key) =
     Returns (Inl (Wrap (External ''invalid public key'') ''decompress pubkey'' [])) \<and>
   Verify zero_key_lib tv_address tv_digest (zk_R @ zk_S @ [27]) =
     Returns (False, Some (Wrap (External ''recovery failed'') ''recover public key'' [])) \<and>
   Verify zero_key_lib (replicate 20 0) tv_digest (zk_R @ zk_S @ [27]) =
     Returns (False, Some (Wrap (External ''recovery failed'') ''recover public key'' []))"
  by code_simp

text \<open>
  C2. For a key of 32 bytes and a digest of 32 bytes, \<^verbatim>\<open>Sign\<close> returns 65 bytes
  \<open>R || S || V\<close> with V 27 or 28: the library's compact output, whose first byte is
  the recovery byte, with that byte moved from index 0 to index 64 (\<open>rotate1\<close>). That
  the library's output is 65 bytes and starts with 27 or 28 is its contract (the
  hypothesis); the package adds nothing to the byte.
\<close>

theorem Sign_RSV_layout:
  assumes "length (Bytes key) = 32" and "length digest = 32"
    and "secp256k1_PrivKeyFromBytes lib (Bytes key) = Returns priv"
    and "ecdsa_SignCompact lib priv digest False = Returns (c0 # R @ S)"
    and "length R = 32" and "length S = 32" and "c0 = 27 \<or> c0 = 28"
  shows "\<exists>sig. Sign lib key digest = Returns (Inr sig) \<and> length sig = 65 \<and>
           sig = R @ S @ [c0] \<and> sig = rotate1 (c0 # R @ S) \<and>
           take 32 sig = R \<and> take 32 (drop 32 sig) = S \<and> sig ! 64 = c0 \<and>
           (sig ! 64 = 27 \<or> sig ! 64 = 28)"
proof -
  have "Sign lib key digest = Returns (Inr (R @ S @ [c0]))"
    using assms by (simp add: Sign_compact)
  moreover have "(R @ S @ [c0]) ! 64 = c0"
    using assms by (simp add: nth_append)
  ultimately show ?thesis
    using assms by simp
qed

text \<open>The recorded signature: the compact output starts with 28, which ends up last.\<close>

theorem Sign_RSV_layout_witness:
  "\<exists>sig. Sign test_lib tv_key tv_digest = Returns (Inr sig) \<and> length sig = 65 \<and>
           sig = tv_R @ tv_S @ [28] \<and> sig = rotate1 (28 # tv_R @ tv_S) \<and>
           take 32 sig = tv_R \<and> take 32 (drop 32 sig) = tv_S \<and> sig ! 64 = 28 \<and>
           (sig ! 64 = 27 \<or> sig ! 64 = 28)"
proof -
  have 1: "length (Bytes tv_key) = 32" by code_simp
  have 2: "length tv_digest = 32" by code_simp
  have 3: "secp256k1_PrivKeyFromBytes test_lib (Bytes tv_key) = Returns (PrivateKey 1)"
    by code_simp
  have 4: "ecdsa_SignCompact test_lib (PrivateKey 1) tv_digest False =
             Returns (28 # tv_R @ tv_S)"
    by code_simp
  have 5: "length tv_R = 32" by code_simp
  have 6: "length tv_S = 32" by code_simp
  have 7: "(28::byte) = 27 \<or> (28::byte) = 28" by simp
  show ?thesis
    by (rule Sign_RSV_layout [OF 1 2 3 4 5 6 7])
qed

text \<open>
  C3. On a 65-byte signature whose byte at index 64 is neither 27 nor 28, \<^verbatim>\<open>Verify\<close>
  returns false with the invalid-recovery-id error, for every address and digest. It
  does so for every library, also one whose functions all panic: no recovery is
  attempted and nothing can panic on this path.
\<close>

theorem Verify_rejects_bad_recovery_id:
  assumes "length sig = 65" and "sig ! 64 \<noteq> 27" and "sig ! 64 \<noteq> 28"
  shows "Verify lib address hash sig =
           Returns (False, Some (New ''invalid recovery id (V) format, must be 27 or 28'' []))"
  using assms by (simp add: Verify_def vIdx_def)

text \<open>A signature ending in 0, with the library whose every call panics.\<close>

theorem Verify_rejects_bad_recovery_id_witness:
  "length (tv_R @ tv_S @ [0]) = 65 \<and>
   (tv_R @ tv_S @ [0]) ! 64 \<noteq> 27 \<and> (tv_R @ tv_S @ [0]) ! 64 \<noteq> 28 \<and>
   Verify no_lib tv_address tv_digest (tv_R @ tv_S @ [0]) =
     Returns (False, Some (New ''invalid recovery id (V) format, must be 27 or 28'' []))"
proof -
  have l: "length (tv_R @ tv_S @ [0]) = 65"
    by (simp add: tv_R_def tv_S_def)
  have a: "(tv_R @ tv_S @ [0]) ! 64 \<noteq> 27"
    by (simp add: tv_R_def tv_S_def)
  have b: "(tv_R @ tv_S @ [0]) ! 64 \<noteq> 28"
    by (simp add: tv_R_def tv_S_def)
  show ?thesis
    using l a b Verify_rejects_bad_recovery_id [OF l a b, of no_lib tv_address tv_digest]
    by simp
qed





section \<open>Key-format conversion\<close>

text \<open>
  C4, as amended. On a byte slice whose length is not 33, \<^verbatim>\<open>PubKeyToAddress\<close>,
  \<^verbatim>\<open>PubKeyBytesToCosmos\<close> (and \<^verbatim>\<open>PubKeyToCosmos\<close>), \<^verbatim>\<open>PBPubKeyFromBytes\<close> and
  \<^verbatim>\<open>PubKeyPBToAddress\<close> return the invalid-pubkey-length error with the length, for
  every library: the check comes before any library call. A protobuf key that is
  not a secp256k1 key counts as length 0. \<^verbatim>\<open>CosmosPubkeyToEVMAddress\<close> has no length
  check: it hands the bytes to the library's decompression and returns the
  library's error as it is.
\<close>

theorem compressed_key_length_checks:
  assumes "length bz \<noteq> 33"
  shows "PubKeyToAddress lib bz =
           Returns (Inl (New ''invalid pubkey length'' [(''length'', length bz)])) \<and>
         PubKeyBytesToCosmos bz = Inl (New ''invalid pubkey length'' [(''length'', length bz)]) \<and>
         PubKeyToCosmos bz = Inl (New ''invalid pubkey length'' [(''length'', length bz)]) \<and>
         PBPubKeyFromBytes bz = Inl (New ''invalid pubkey length'' [(''length'', length bz)]) \<and>
         PubKeyPBToAddress lib (PublicKey_Secp256K1 bz) =
           Returns (Inl (New ''invalid pubkey length'' [(''length'', length bz)])) \<and>
         PubKeyPBToAddress lib PublicKey_unset =
           Returns (Inl (New ''invalid pubkey length'' [(''length'', 0)])) \<and>
         PubKeyPBToAddress lib (PublicKey_Ed25519 ed) =
           Returns (Inl (New ''invalid pubkey length'' [(''length'', 0)])) \<and>
         CosmosPubkeyToEVMAddress lib bz =
           (case ethcrypto_DecompressPubkey lib bz of
              Panics \<Rightarrow> Panics
            | Returns (Inl err) \<Rightarrow> Returns (Inl (External err))
            | Returns (Inr key) \<Rightarrow>
                (case ethcrypto_PubkeyToAddress lib key of
                   Panics \<Rightarrow> Panics
                 | Returns addr \<Rightarrow> Returns (Inr addr)))"
  using assms
  by (simp add: PubKeyToAddress_def PubKeyBytesToCosmos_def PubKeyToCosmos_def
      PBPubKeyFromBytes_def PubKeyPBToAddress_def CosmosPubkeyToEVMAddress_def
      pubkeyCompressedLen_def)

text \<open>The empty slice, with the library whose every call panics.\<close>

theorem compressed_key_length_checks_witness:
  "length ([] :: bytes) \<noteq> 33 \<and>
   PubKeyToAddress no_lib [] = Returns (Inl (New ''invalid pubkey length'' [(''length'', 0)])) \<and>
   PubKeyBytesToCosmos [] = Inl (New ''invalid pubkey length'' [(''length'', 0)]) \<and>
   PubKeyToCosmos [] = Inl (New ''invalid pubkey length'' [(''length'', 0)]) \<and>
   PBPubKeyFromBytes [] = Inl (New ''invalid pubkey length'' [(''length'', 0)]) \<and>
   PubKeyPBToAddress no_lib (PublicKey_Secp256K1 []) =
     Returns (Inl (New ''invalid pubkey length'' [(''length'', 0)])) \<and>
   CosmosPubkeyToEVMAddress no_lib [] = Panics"
proof -
  have l: "length ([] :: bytes) \<noteq> 33"
    by simp
  have p: "ethcrypto_DecompressPubkey no_lib [] = Panics"
    by (simp add: no_lib_def)
  show ?thesis
    using compressed_key_length_checks [OF l, of no_lib] by (simp add: p)
qed

text \<open>
  C4 as stated fails for \<^verbatim>\<open>CosmosPubkeyToEVMAddress\<close>: on the empty slice its result
  is the library's, a decoding error or a panic, where \<^verbatim>\<open>PubKeyToAddress\<close> returns
  the length error without calling the library.
\<close>

theorem CosmosPubkeyToEVMAddress_no_length_check:
  "CosmosPubkeyToEVMAddress test_lib [] = Returns (Inl (External ''invalid public key'')) \<and>
   CosmosPubkeyToEVMAddress no_lib [] = Panics \<and>
   PubKeyToAddress no_lib [] = Returns (Inl (New ''invalid pubkey length'' [(''length'', 0)]))"
  by code_simp

subsection \<open>The 64-byte encoding\<close>

lemma be_int_snoc: "be_int (bz @ [b]) = be_int bz * 256 + uint b"
  by (simp add: be_int_def)

lemma length_be_bytes: "length (be_bytes n x) = n"
  by (induction n arbitrary: x) simp_all

text \<open>Reading back \<open>n\<close> big-endian bytes of a number below \<open>256\<^sup>n\<close> gives the number.\<close>

lemma be_int_be_bytes: "0 \<le> x \<Longrightarrow> x < 256 ^ n \<Longrightarrow> be_int (be_bytes n x) = x"
proof (induction n arbitrary: x)
  case 0
  then show ?case by (simp add: be_int_def)
next
  case (Suc n)
  have "x < 256 * (256::int) ^ n"
    using Suc.prems by simp
  then have d: "0 \<le> x div 256" "x div 256 < 256 ^ n"
    using Suc.prems(1) by (simp, arith)
  have "uint (word_of_int (x mod 256) :: byte) = x mod 256"
    by (simp add: uint_word_of_int take_bit_eq_mod)
  then show ?case
    using Suc.IH [OF d] by (simp add: be_int_snoc)
qed

lemma secp256k1_P_bound: "secp256k1_P < 256 ^ 32"
  by (simp add: secp256k1_P_def)

text \<open>The test double meets the contract of the uncompressed encoding.\<close>

lemma test_lib_uncompressed_encoding: "uncompressed_encoding_roundtrips test_lib"
  unfolding uncompressed_encoding_roundtrips_def
proof (intro allI impI)
  fix pk
  assume v: "on_secp256k1 (X pk) (Y pk)"
  define m where "m = be_bytes 32 (X pk) @ be_bytes 32 (Y pk)"
  have x: "be_int (be_bytes 32 (X pk)) = X pk" and y: "be_int (be_bytes 32 (Y pk)) = Y pk"
    using v secp256k1_P_bound by (simp_all add: on_secp256k1_def be_int_be_bytes)
  have l: "length m = 64"
    by (simp add: m_def length_be_bytes)
  have t: "take 32 m = be_bytes 32 (X pk)" and d: "drop 32 m = be_bytes 32 (Y pk)"
    by (simp_all add: m_def length_be_bytes)
  have f: "ethcrypto_FromECDSAPub test_lib pk = Returns (4 # m)"
    by (simp add: test_lib_def m_def)
  have c: "bytes64_on_curve m"
    using v by (simp add: bytes64_on_curve_def t d x y)
  have "ethcrypto_UnmarshalPubkey test_lib (4 # m) = Returns (Inr (PublicKey (X pk) (Y pk)))"
    using l c by (simp add: test_lib_def t d x y drop_Suc_Cons [of 32, simplified])
  then have u: "ethcrypto_UnmarshalPubkey test_lib (4 # m) = Returns (Inr pk)"
    by simp
  show "\<exists>m. length m = 64 \<and> ethcrypto_FromECDSAPub test_lib pk = Returns (4 # m) \<and>
             ethcrypto_UnmarshalPubkey test_lib (4 # m) = Returns (Inr pk)"
    using l f u by blast
qed

text \<open>
  C5. For every valid public key \<open>pk\<close> (a point of the curve),
  \<^verbatim>\<open>PubKeyFromBytes64\<close> applied to \<^verbatim>\<open>PubKeyToBytes64(pk)\<close> returns \<open>pk\<close> without
  error: stripping the first byte of the library's uncompressed encoding leaves 64
  bytes, these pass the length check, and prefixing \<open>0x04\<close> gives the encoding back.
  The libraries' part, that the encoding of a valid key is \<open>0x04\<close> and 64 bytes and
  parses back to the key, is the hypothesis \<open>uncompressed_encoding_roundtrips\<close>.
\<close>

theorem PubKeyBytes64_roundtrip:
  assumes "uncompressed_encoding_roundtrips lib" and "on_secp256k1 (X pk) (Y pk)"
  shows "\<exists>m. PubKeyToBytes64 lib pk = Returns m \<and> length m = 64 \<and>
           PubKeyFromBytes64 lib m = Returns (Inr pk)"
proof -
  from assms obtain m where m: "length m = 64"
      "ethcrypto_FromECDSAPub lib pk = Returns (4 # m)"
      "ethcrypto_UnmarshalPubkey lib (4 # m) = Returns (Inr pk)"
    unfolding uncompressed_encoding_roundtrips_def by blast
  have "PubKeyToBytes64 lib pk = Returns m"
    using m(2) by (simp add: PubKeyToBytes64_def)
  moreover have "PubKeyFromBytes64 lib m = Returns (Inr pk)"
    using m(1,3) by (simp add: PubKeyFromBytes64_def pubkeyUncompressedLen_def prefix04_def)
  ultimately show ?thesis
    using m(1) by blast
qed

text \<open>The generator of the curve, with the computed encoding of the test double.\<close>

theorem PubKeyBytes64_roundtrip_witness:
  "uncompressed_encoding_roundtrips test_lib \<and> on_secp256k1 (X tv_pub) (Y tv_pub) \<and>
   (\<exists>m. PubKeyToBytes64 test_lib tv_pub = Returns m \<and> length m = 64 \<and>
        PubKeyFromBytes64 test_lib m = Returns (Inr tv_pub))"
proof -
  have v: "on_secp256k1 (X tv_pub) (Y tv_pub)"
    by code_simp
  show ?thesis
    using test_lib_uncompressed_encoding v
      PubKeyBytes64_roundtrip [OF test_lib_uncompressed_encoding v]
    by simp
qed

text \<open>
  \<^verbatim>\<open>PubKeyFromBytes64\<close> has no check of its own beyond the length: on 64 bytes its
  result is the library's answer for \<open>0x04\<close> and these bytes, an error wrapped, a
  key as it is, a panic passed on.
\<close>

lemma PubKeyFromBytes64_library_answer:
  assumes "length bz = 64"
  shows "PubKeyFromBytes64 lib bz =
           (case ethcrypto_UnmarshalPubkey lib (4 # bz) of
              Panics \<Rightarrow> Panics
            | Returns (Inl err) \<Rightarrow> Returns (Inl (Wrap (External err) ''unmarshal pubkey'' []))
            | Returns (Inr resp) \<Rightarrow> Returns (Inr resp))"
  using assms by (simp add: PubKeyFromBytes64_def pubkeyUncompressedLen_def prefix04_def)

text \<open>
  C6 does not hold of the code. The sixty-four zero bytes denote the point (0, 0),
  which is not on the curve; with a library that parses the uncompressed encoding
  without checking the curve equation, \<^verbatim>\<open>PubKeyFromBytes64\<close> returns the key (0, 0)
  and no error. With the library that checks, the same input gives the wrapped
  error.
\<close>

theorem PubKeyFromBytes64_returns_off_curve_key:
  "length (replicate 64 (0::byte)) = 64 \<and>
   \<not> bytes64_on_curve (replicate 64 0) \<and>
   PubKeyFromBytes64 unchecked_lib (replicate 64 0) = Returns (Inr (PublicKey 0 0)) \<and>
   PubKeyFromBytes64 test_lib (replicate 64 0) =
     Returns (Inl (Wrap (External ''invalid secp256k1 public key'') ''unmarshal pubkey'' []))"
  by code_simp

section \<open>Textual keys\<close>

lemma fromHexChar_x: "fromHexChar CHR ''x'' = None"
  by (simp add: fromHexChar_def)

text \<open>A string that decodes as hexadecimal has no \<open>x\<close> in it.\<close>

lemma hex_DecodeString_no_x: "hex_DecodeString s = Inr bz \<Longrightarrow> CHR ''x'' \<notin> set s"
proof (induction s arbitrary: bz rule: hex_DecodeString.induct)
  case 1
  then show ?case by simp
next
  case (2 p)
  then show ?case by (simp split: option.splits)
next
  case (3 p q rest)
  then show ?case
    by (auto simp: fromHexChar_x split: option.splits sum.splits)
qed

lemma strings_Index_0x_None: "CHR ''x'' \<notin> set s \<Longrightarrow> strings_Index s ''0x'' = None"
  by (induction s) (auto simp: prefix_def)

lemma strings_Replace_absent: "strings_Index s old = None \<Longrightarrow> strings_Replace s old new n = s"
  by (cases n) simp_all

lemma strings_Replace_leading: "strings_Replace (''0x'' @ s) ''0x'' [] 1 = s"
  unfolding One_nat_def by simp

lemma decodePubKeyFromHex_0x_prefix:
  assumes "hex_DecodeString hex = Inr bz"
  shows "decodePubKeyFromHex (''0x'' @ hex) = decodePubKeyFromHex hex"
proof -
  have "strings_Replace hex ''0x'' [] 1 = hex"
    using assms by (simp add: hex_DecodeString_no_x strings_Index_0x_None strings_Replace_absent)
  then show ?thesis
    by (simp only: decodePubKeyFromHex_def strings_Replace_leading)
qed

text \<open>
  C7. For every hexadecimal string that encodes 33 bytes, \<^verbatim>\<open>CmpPubKeyToDelegatorAddress\<close>
  returns the same result, address string or error, with and without a leading
  \<^verbatim>\<open>0x\<close>.
\<close>

theorem CmpPubKeyToDelegatorAddress_0x_prefix:
  assumes "hex_DecodeString hex = Inr bz" and "length bz = 33"
  shows "CmpPubKeyToDelegatorAddress lib (''0x'' @ hex) = CmpPubKeyToDelegatorAddress lib hex"
  using assms(1) by (simp only: CmpPubKeyToDelegatorAddress_def decodePubKeyFromHex_0x_prefix)

text \<open>The compressed generator: both spellings give its recorded address string.\<close>

theorem CmpPubKeyToDelegatorAddress_0x_prefix_witness:
  "hex_DecodeString ''0279be667ef9dcbbac55a06295ce870b07029bfcdb2dce28d959f2815b16f81798''
     = Inr tv_pub_compressed \<and>
   length tv_pub_compressed = 33 \<and>
   CmpPubKeyToDelegatorAddress test_lib
     (''0x'' @ ''0279be667ef9dcbbac55a06295ce870b07029bfcdb2dce28d959f2815b16f81798'') =
   CmpPubKeyToDelegatorAddress test_lib
     ''0279be667ef9dcbbac55a06295ce870b07029bfcdb2dce28d959f2815b16f81798'' \<and>
   CmpPubKeyToDelegatorAddress test_lib
     ''0279be667ef9dcbbac55a06295ce870b07029bfcdb2dce28d959f2815b16f81798'' =
   Returns (Inr ''cosmos1w508d6qejxtdg4y5r3zarvary0c5xw7k6ah60c'')"
proof -
  have d: "hex_DecodeString ''0279be667ef9dcbbac55a06295ce870b07029bfcdb2dce28d959f2815b16f81798''
     = Inr tv_pub_compressed"
    by code_simp
  have l: "length tv_pub_compressed = 33"
    by code_simp
  have r: "CmpPubKeyToDelegatorAddress test_lib
     ''0279be667ef9dcbbac55a06295ce870b07029bfcdb2dce28d959f2815b16f81798'' =
   Returns (Inr ''cosmos1w508d6qejxtdg4y5r3zarvary0c5xw7k6ah60c'')"
    by code_simp
  show ?thesis
    using d l r CmpPubKeyToDelegatorAddress_0x_prefix [OF d l, of test_lib] by simp
qed

text \<open>
  With a count of 1, \<^verbatim>\<open>strings.Replace\<close> replaces the first occurrence, at whatever
  position it is found.
\<close>

lemma strings_Replace_first_occurrence:
  "strings_Index s old = Some j \<Longrightarrow>
   strings_Replace s old new 1 = take j s @ new @ drop (j + length old) s"
  unfolding One_nat_def by simp

text \<open>
  C10. \<^verbatim>\<open>decodePubKeyFromHex\<close> removes the first \<^verbatim>\<open>0x\<close> wherever it stands. In the
  string below it first occurs at position 2, after the two digits \<^verbatim>\<open>02\<close>; it is
  removed, the remaining 66 digits decode to the 33 bytes of the compressed
  generator, and the input is accepted, also by \<^verbatim>\<open>CmpPubKeyToDelegatorAddress\<close> and
  \<^verbatim>\<open>CmpPubKeyToValidatorAddress\<close>.
\<close>

theorem decodePubKeyFromHex_strips_inner_0x:
  "strings_Index ''020x79be667ef9dcbbac55a06295ce870b07029bfcdb2dce28d959f2815b16f81798'' ''0x''
     = Some 2 \<and>
   strings_Replace ''020x79be667ef9dcbbac55a06295ce870b07029bfcdb2dce28d959f2815b16f81798''
     ''0x'' [] 1
     = ''0279be667ef9dcbbac55a06295ce870b07029bfcdb2dce28d959f2815b16f81798'' \<and>
   decodePubKeyFromHex ''020x79be667ef9dcbbac55a06295ce870b07029bfcdb2dce28d959f2815b16f81798''
     = Inr (cosmosk1_PubKey tv_pub_compressed) \<and>
   CmpPubKeyToDelegatorAddress test_lib
     ''020x79be667ef9dcbbac55a06295ce870b07029bfcdb2dce28d959f2815b16f81798''
     = Returns (Inr ''cosmos1w508d6qejxtdg4y5r3zarvary0c5xw7k6ah60c'') \<and>
   CmpPubKeyToValidatorAddress test_lib
     ''020x79be667ef9dcbbac55a06295ce870b07029bfcdb2dce28d959f2815b16f81798''
     = Returns (Inr ''cosmosvaloper1w508d6qejxtdg4y5r3zarvary0c5xw7klfr0rt'')"
  by code_simp

end
